theory Spec2Isabelle
  imports Main "HOL-Library.AList"
begin

section \<open>Data model of \<^verbatim>\<open>source/peer-connection.js\<close>\<close>

text \<open>
  \<^verbatim>\<open>Skylink.prototype.PEER_CONNECTION_STATE\<close> (lines 17-22): the signaling states of a
  transport.
\<close>

datatype PEER_CONNECTION_STATE = STABLE | HAVE_LOCAL_OFFER | HAVE_REMOTE_OFFER | CLOSED

text \<open>
  Modelled from the spec: the table \<^verbatim>\<open>ICE_CONNECTION_STATE\<close> is declared in another file of
  the repository. The spec lists its values: NEW, CHECKING, CONNECTED, COMPLETED, FAILED,
  DISCONNECTED, CLOSED and the synthesized TRICKLE_FAILED.
\<close>

datatype ICE_CONNECTION_STATE =
    ICE_NEW | ICE_CHECKING | ICE_CONNECTED | ICE_COMPLETED | ICE_FAILED
  | ICE_DISCONNECTED | ICE_CLOSED | ICE_TRICKLE_FAILED

text \<open>
  The object built by \<^verbatim>\<open>new window.RTCPeerConnection\<close> together with the attributes the
  module adds to it. \<open>pc_peer\<close> is the variable \<^verbatim>\<open>targetMid\<close> captured by the handlers
  that \<^verbatim>\<open>_createPeerConnection\<close> installs. \<open>receiveOnly\<close> is \<open>None\<close> while the property
  is undefined; \<open>dataChannelClosed\<close> is only ever assigned \<^verbatim>\<open>true\<close>, so \<open>False\<close> stands
  for undefined.
\<close>

record RTCPeerConnection =
  pc_peer :: string
  setOffer :: string
  setAnswer :: string
  hasStream :: bool
  signalingState :: PEER_CONNECTION_STATE
  iceConnectionState :: ICE_CONNECTION_STATE
  receiveOnly :: "bool option"
  dataChannelClosed :: bool

text \<open>
  What a key of \<^verbatim>\<open>_peerConnections\<close> holds: \<^verbatim>\<open>null\<close> (the value
  \<^verbatim>\<open>_createPeerConnection\<close> returns when the allocation throws) or a reference to a
  transport object in the store. An absent key is \<open>None\<close> of \<open>map_of\<close>.
\<close>

datatype slot = Null | Ref nat

datatype js_error = TypeError

text \<open>
  A call either returns or throws; in both cases the mutations made so far persist.
\<close>

datatype 'a outcome = Returned 'a | Threw js_error 'a

datatype level = LError | LWarn | LLog | LInfo | LDebug

text \<open>
  Events published with \<^verbatim>\<open>_trigger\<close>. \<open>PeerLeft\<close> carries
  \<^verbatim>\<open>_peerInformations[peerId]\<close>, which may be undefined.
\<close>

datatype event =
    IceConnectionStateEvent ICE_CONNECTION_STATE string
  | PeerConnectionStateEvent PEER_CONNECTION_STATE string
  | StreamEnded string
  | PeerRestart string bool
  | PeerLeft string "string option"

text \<open>
  The RESTART message of lines 181-192: target, \<^verbatim>\<open>isConnectionRestart\<close> and
  \<^verbatim>\<open>lastRestart\<close>. The last is the value of line 179: the time, or \<open>None\<close> when it is
  the fallback function. The remaining fields are read from session objects declared
  elsewhere and play no role here.
\<close>

datatype message = RESTART string bool "int option"

text \<open>
  The observable effects, in the order in which the code performs them: log lines, published
  events, and calls into the collaborators (the platform constructor, \<^verbatim>\<open>pc.close()\<close>,
  the media-stream, data-channel, negotiation and signaling helpers, completion callbacks).
\<close>

datatype action =
    Log level string string
  | Trigger event
  | Construct nat string
  | Close nat
  | AddLocalMediaStreams string
  | CreateDataChannel string
  | DoOffer string string
  | CloseDataChannel string
  | SendChannelMessage message
  | Callback nat

text \<open>
  The variables that the closures created by one call of \<^verbatim>\<open>_restartPeerConnection\<close>
  capture: the arguments and the snapshot of \<^verbatim>\<open>receiveOnly\<close>. A callback is named by a
  number.
\<close>

record restart_env =
  r_peerId :: string
  r_receiveOnly :: bool
  r_isSelfInitiatedRestart :: bool
  r_isConnectionRestart :: bool
  r_callback :: "nat option"

text \<open>
  One pending \<^verbatim>\<open>_wait\<close> of a restart with the two local flags that its one-shot
  subscriptions set (lines 128-144).
\<close>

record wait_entry =
  w_env :: restart_env
  iceConnectionStateClosed :: bool
  peerConnectionStateClosed :: bool

text \<open>
  The \<^verbatim>\<open>Skylink\<close> instance. \<open>peerConnections\<close> keeps the keys in insertion order, the
  order in which \<^verbatim>\<open>for ... in\<close> visits them; \<open>heap\<close> and \<open>nextRef\<close> are the store of
  transport objects; \<open>rtcAvailable\<close> says whether the platform constructor succeeds;
  \<open>lastRestart\<close> is the property \<^verbatim>\<open>self.lastRestart\<close> that \<^verbatim>\<open>refreshConnection\<close> reads
  (\<open>None\<close> while undefined; no line of this file assigns it); \<open>healthTimers\<close>, \<open>waits\<close>,
  \<open>timers\<close> and \<open>throttleStamp\<close> are the state of helpers declared elsewhere (the
  health-check watchdog, \<^verbatim>\<open>_wait\<close>, \<^verbatim>\<open>setTimeout\<close>, \<^verbatim>\<open>_throttle\<close>); \<open>clock\<close> is
  \<^verbatim>\<open>Date.now()\<close>.
\<close>

record skylink =
  peerConnections :: "(string \<times> slot) list"
  heap :: "nat \<Rightarrow> RTCPeerConnection"
  nextRef :: nat
  rtcAvailable :: bool
  lastRestart :: "int option"
  hasMCU :: bool
  enableDataChannel :: bool
  enableIceTrickle :: bool
  peerConnectionHealth :: "string \<rightharpoonup> bool"
  ICEConnectionFailures :: "string \<rightharpoonup> int"
  peerIceTrickleDisabled :: "string \<rightharpoonup> bool"
  peerHSPriorities :: "string \<rightharpoonup> int"
  peerInformations :: "string \<rightharpoonup> string"
  healthTimers :: "string \<Rightarrow> bool"
  waits :: "wait_entry list"
  timers :: "(int \<times> restart_env) list"
  throttleStamp :: "int option"
  clock :: int
  trace :: "action list"

section \<open>Helpers\<close>

definition emit :: "action \<Rightarrow> skylink \<Rightarrow> skylink" where
  "emit a s = s\<lparr>trace := trace s @ [a]\<rparr>"

definition conn :: "skylink \<Rightarrow> string \<Rightarrow> slot option" where
  "conn s peerId = map_of (peerConnections s) peerId"

text \<open>The truthiness test \<^verbatim>\<open>self._peerConnections[peerId]\<close>: an object, not null or absent.\<close>

fun truthy :: "slot option \<Rightarrow> bool" where
  "truthy (Some (Ref h)) = True"
| "truthy _ = False"

definition setConn :: "string \<Rightarrow> slot \<Rightarrow> skylink \<Rightarrow> skylink" where
  "setConn peerId v s = s\<lparr>peerConnections := AList.update peerId v (peerConnections s)\<rparr>"

definition deleteConn :: "string \<Rightarrow> skylink \<Rightarrow> skylink" where
  "deleteConn peerId s = s\<lparr>peerConnections := AList.delete peerId (peerConnections s)\<rparr>"

definition modify :: "nat \<Rightarrow> (RTCPeerConnection \<Rightarrow> RTCPeerConnection) \<Rightarrow> skylink \<Rightarrow> skylink" where
  "modify h f s = s\<lparr>heap := (heap s)(h := f (heap s h))\<rparr>"

text \<open>
  The value of \<^verbatim>\<open>Date.now() || function() { return +new Date(); }\<close> (lines 179 and 431):
  the time when it is not 0, the fallback function (\<open>None\<close>) otherwise. Arithmetic on the
  function gives NaN.
\<close>

definition dateNow :: "skylink \<Rightarrow> int option" where
  "dateNow s = (if clock s = 0 then None else Some (clock s))"

text \<open>
  Modelled from the spec: the Event Bus (\<^verbatim>\<open>_trigger\<close>, \<^verbatim>\<open>once\<close>) is declared in another
  file. A one-shot subscription with a predicate fires once, when the predicate holds of the
  published arguments. The only subscriptions of this module are the two of
  \<^verbatim>\<open>_restartPeerConnection\<close>, whose predicates are lines 136-138 and 142-144 and whose
  bodies set one flag each.
\<close>

fun notify :: "event \<Rightarrow> wait_entry \<Rightarrow> wait_entry" where
  "notify (IceConnectionStateEvent state currentPeerId) w =
     (if state = ICE_CLOSED \<and> r_peerId (w_env w) = currentPeerId
      then w\<lparr>iceConnectionStateClosed := True\<rparr> else w)"
| "notify (PeerConnectionStateEvent state currentPeerId) w =
     (if state = CLOSED \<and> r_peerId (w_env w) = currentPeerId
      then w\<lparr>peerConnectionStateClosed := True\<rparr> else w)"
| "notify _ w = w"

definition trigger :: "event \<Rightarrow> skylink \<Rightarrow> skylink" where
  "trigger ev s = (emit (Trigger ev) s)\<lparr>waits := map (notify ev) (waits s)\<rparr>"

text \<open>
  Modelled from the spec: the Health Monitor (\<^verbatim>\<open>_startPeerConnectionHealthCheck\<close>,
  \<^verbatim>\<open>_stopPeerConnectionHealthCheck\<close>) is declared in another file. There is at most one
  active watchdog per peer; starting one replaces the previous one, stopping removes it.
\<close>

definition startPeerConnectionHealthCheck :: "string \<Rightarrow> skylink \<Rightarrow> skylink" where
  "startPeerConnectionHealthCheck peerId s = s\<lparr>healthTimers := (healthTimers s)(peerId := True)\<rparr>"

definition stopPeerConnectionHealthCheck :: "string \<Rightarrow> skylink \<Rightarrow> skylink" where
  "stopPeerConnectionHealthCheck peerId s = s\<lparr>healthTimers := (healthTimers s)(peerId := False)\<rparr>"

section \<open>The Connection Factory\<close>

text \<open>Lines 290-292: the attributes of a fresh transport before any native state change.\<close>

definition newPeerConnection :: "string \<Rightarrow> RTCPeerConnection" where
  "newPeerConnection peerId =
     \<lparr>pc_peer = peerId, setOffer = [], setAnswer = [], hasStream = False,
      signalingState = STABLE, iceConnectionState = ICE_NEW,
      receiveOnly = None, dataChannelClosed = False\<rparr>"

text \<open>
  \<^verbatim>\<open>_createPeerConnection\<close> (lines 274-394). The \<^verbatim>\<open>try\<close> block either allocates the
  transport and logs three lines, or the \<^verbatim>\<open>catch\<close> logs the error and returns null. The
  handlers it installs are the functions of the next section.
\<close>

definition createPeerConnection :: "string \<Rightarrow> skylink \<Rightarrow> slot \<times> skylink" where
  "createPeerConnection peerId s =
     (if rtcAvailable s then
        (let h = nextRef s;
             s1 = emit (Construct h peerId) s;
             s2 = s1\<lparr>heap := (heap s1)(h := newPeerConnection peerId), nextRef := Suc h\<rparr>;
             s3 = emit (Log LInfo peerId ''Created peer connection'') s2;
             s4 = emit (Log LDebug peerId ''Peer connection config:'') s3;
             s5 = emit (Log LDebug peerId ''Peer connection constraints:'') s4
         in (Ref h, s5))
      else (Null, emit (Log LError peerId ''Failed creating peer connection:'') s))"

text \<open>
  \<^verbatim>\<open>_addPeer\<close> (lines 65-94). The optional arguments \<^verbatim>\<open>toOffer\<close>, \<^verbatim>\<open>restartConn\<close> and
  \<^verbatim>\<open>receiveOnly\<close> are only tested for truthiness, so they are booleans here. Line 80
  dereferences \<^verbatim>\<open>self._peerConnections[targetMid]\<close>: when that is null or undefined the
  assignment throws a TypeError and the rest of the function does not run.
\<close>

definition addPeer ::
  "string \<Rightarrow> string \<Rightarrow> bool \<Rightarrow> bool \<Rightarrow> bool \<Rightarrow> skylink \<Rightarrow> skylink outcome" where
  "addPeer peerId peerBrowser toOffer restartConn recvOnly s =
     (if truthy (conn s peerId) \<and> \<not> restartConn then
        Returned (emit (Log LError peerId ''Connection to peer has already been made'') s)
      else
        (let s1 = emit (Log LLog peerId ''Starting the connection to peer. Options provided:'') s;
             s2 = (if \<not> restartConn
                   then (case createPeerConnection peerId s1 of (r, s') \<Rightarrow> setConn peerId r s')
                   else s1)
         in case conn s2 peerId of
              Some (Ref h) \<Rightarrow>
                (let s3 = modify h (\<lambda>pc. pc\<lparr>receiveOnly := Some recvOnly\<rparr>) s2;
                     s4 = (if \<not> recvOnly then emit (AddLocalMediaStreams peerId) s3 else s3);
                     s5 = (if toOffer
                           then emit (DoOffer peerId peerBrowser)
                                  (if enableDataChannel s4
                                   then emit (CreateDataChannel peerId) s4 else s4)
                           else s4)
                 in Returned (startPeerConnectionHealthCheck peerId s5))
            | _ \<Rightarrow> Threw TypeError s2))"

section \<open>The Restart Controller\<close>

text \<open>
  \<^verbatim>\<open>_restartPeerConnection\<close> (lines 111-206), up to and including the call of
  \<^verbatim>\<open>_wait\<close>. \<^verbatim>\<open>isConnectionRestart\<close> is only used as \<^verbatim>\<open>!!isConnectionRestart\<close>, so an
  omitted argument is \<open>False\<close>. The two \<^verbatim>\<open>once\<close> subscriptions and the waiting closure
  become one entry of \<open>waits\<close> with both flags false. \<open>Close h\<close> records the call of
  \<^verbatim>\<open>close()\<close>; what the transport then does to its native state is the environment's
  move (\<open>nativeSignalingState\<close>, \<open>nativeIceConnectionState\<close> below).
\<close>

definition restartPeerConnection ::
  "string \<Rightarrow> bool \<Rightarrow> bool \<Rightarrow> nat option \<Rightarrow> skylink \<Rightarrow> skylink" where
  "restartPeerConnection peerId isSelfInitiatedRestart isConnectionRestart callback s =
     (case conn s peerId of
        Some (Ref h) \<Rightarrow>
          (let s1 = emit (Log LLog peerId ''Restarting a peer connection'') s;
               recvOnly = (case receiveOnly (heap s1 h) of Some b \<Rightarrow> b | None \<Rightarrow> False);
               s2 = modify h (\<lambda>pc. pc\<lparr>dataChannelClosed := True\<rparr>) s1;
               s3 = s2\<lparr>waits := waits s2 @
                      [\<lparr>w_env = \<lparr>r_peerId = peerId, r_receiveOnly = recvOnly,
                                 r_isSelfInitiatedRestart = isSelfInitiatedRestart,
                                 r_isConnectionRestart = isConnectionRestart,
                                 r_callback = callback\<rparr>,
                        iceConnectionStateClosed = False,
                        peerConnectionStateClosed = False\<rparr>]\<rparr>;
               s4 = s3\<lparr>peerConnectionHealth := (peerConnectionHealth s3)(peerId := None)\<rparr>;
               s5 = stopPeerConnectionHealthCheck peerId s4;
               s6 = (if signalingState (heap s5 h) \<noteq> CLOSED then emit (Close h) s5 else s5)
           in if hasStream (heap s6 h) then trigger (StreamEnded peerId) s6 else s6)
      | _ \<Rightarrow>
          emit (Log LError peerId
                 ''Peer does not have an existing connection. Unable to restart'') s)"

text \<open>
  Lines 158-169: the function handed to \<^verbatim>\<open>_wait\<close>. It deletes the record, creates the
  new transport at once, stores what the factory returned, and arms the one second timer.
\<close>

definition waitCallback :: "restart_env \<Rightarrow> skylink \<Rightarrow> skylink" where
  "waitCallback e s =
     (let peerId = r_peerId e;
          s1 = emit (Log LLog peerId ''Ice and peer connections closed'') s;
          s2 = deleteConn peerId s1;
          s3 = emit (Log LLog peerId ''Re-creating peer connection'') s2
      in case createPeerConnection peerId s3 of
           (r, s4) \<Rightarrow>
             (let s5 = setConn peerId r s4
              in s5\<lparr>timers := timers s5 @ [(clock s5 + 1000, e)]\<rparr>))"

text \<open>
  Modelled from the spec: \<^verbatim>\<open>_wait\<close> is declared in another file. It suspends
  cooperatively until the condition holds and then runs the callback once. \<open>waitCheck i\<close>
  is one look of the \<open>i\<close>-th pending wait at its condition (lines 202-204).
\<close>

definition waitCheck :: "nat \<Rightarrow> skylink \<Rightarrow> skylink" where
  "waitCheck i s =
     (if i < length (waits s) \<and> iceConnectionStateClosed (waits s ! i)
           \<and> peerConnectionStateClosed (waits s ! i)
      then waitCallback (w_env (waits s ! i))
             (s\<lparr>waits := take i (waits s) @ drop (Suc i) (waits s)\<rparr>)
      else s)"

text \<open>
  Lines 169-201: the body of the timer. Line 170 dereferences the registry entry, which is
  null when the allocation of line 166 failed: the assignment then throws.
\<close>

definition restartTimeout :: "restart_env \<Rightarrow> skylink \<Rightarrow> skylink outcome" where
  "restartTimeout e s =
     (let peerId = r_peerId e
      in case conn s peerId of
           Some (Ref h) \<Rightarrow>
             (let s1 = modify h (\<lambda>pc. pc\<lparr>receiveOnly := Some (r_receiveOnly e)\<rparr>) s;
                  s2 = (if \<not> r_receiveOnly e then emit (AddLocalMediaStreams peerId) s1 else s1);
                  s3 = (if r_isSelfInitiatedRestart e
                        then emit (SendChannelMessage
                                     (RESTART peerId (r_isConnectionRestart e) (dateNow s2)))
                               (emit (Log LLog peerId
                                       ''Sending restart message to signaling server'') s2)
                        else s2);
                  s4 = trigger (PeerRestart peerId True) s3
              in Returned
                   (case r_callback e of
                      Some c \<Rightarrow> emit (Callback c) (emit (Log LLog [] ''Firing callback'') s4)
                    | None \<Rightarrow> s4))
         | _ \<Rightarrow> Threw TypeError s)"

text \<open>
  \<^verbatim>\<open>setTimeout(..., 1000)\<close>: the \<open>i\<close>-th armed timer runs once its due time has come.
\<close>

definition timerFire :: "nat \<Rightarrow> skylink \<Rightarrow> skylink outcome" where
  "timerFire i s =
     (if i < length (timers s) \<and> fst (timers s ! i) \<le> clock s
      then restartTimeout (snd (timers s ! i))
             (s\<lparr>timers := take i (timers s) @ drop (Suc i) (timers s)\<rparr>)
      else Returned s)"

text \<open>Time passing.\<close>

definition tick :: "int \<Rightarrow> skylink \<Rightarrow> skylink" where
  "tick d s = s\<lparr>clock := clock s + d\<rparr>"

section \<open>Peer removal\<close>

text \<open>
  \<^verbatim>\<open>_removePeer\<close> (lines 219-261). Line 230 dereferences the registry entry before the
  test of line 233 looks whether it is defined.
\<close>

definition removePeer :: "string \<Rightarrow> skylink \<Rightarrow> skylink outcome" where
  "removePeer peerId s =
     (let s1 = (if peerId \<noteq> ''MCU''
                then trigger (PeerLeft peerId (peerInformations s peerId)) s
                else emit (Log LLog peerId ''MCU has stopped listening and left'')
                       (s\<lparr>hasMCU := False\<rparr>));
          s2 = stopPeerConnectionHealthCheck peerId s1
      in case conn s2 peerId of
           Some (Ref h) \<Rightarrow>
             (let s3 = modify h (\<lambda>pc. pc\<lparr>dataChannelClosed := True\<rparr>) s2;
                  s4 = (if conn s3 peerId \<noteq> None then
                          (let a = (if signalingState (heap s3 h) \<noteq> CLOSED
                                    then emit (Close h) s3 else s3);
                               b = (if hasStream (heap a h)
                                    then trigger (StreamEnded peerId) a else a)
                           in deleteConn peerId b)
                        else s3);
                  s5 = s4\<lparr>peerHSPriorities := (peerHSPriorities s4)(peerId := None),
                          peerInformations := (peerInformations s4)(peerId := None),
                          peerConnectionHealth := (peerConnectionHealth s4)(peerId := None)\<rparr>;
                  s6 = (if enableDataChannel s5 then emit (CloseDataChannel peerId) s5 else s5)
              in Returned (emit (Log LLog peerId ''Successfully removed peer'') s6))
         | _ \<Rightarrow> Threw TypeError s2)"

section \<open>The handlers installed by the factory\<close>

text \<open>
  Lines 315-367: the function that \<^verbatim>\<open>pc.oniceconnectionstatechange\<close> hands to
  \<^verbatim>\<open>checkIceConnectionState\<close>, for the transport \<open>h\<close> and the state it is called with.
  Line 330 initialises the failure counter, line 334 tests it before line 339 increments
  it.
\<close>

definition iceConnectionStateCallback ::
  "nat \<Rightarrow> ICE_CONNECTION_STATE \<Rightarrow> skylink \<Rightarrow> skylink" where
  "iceConnectionStateCallback h state s =
     (let targetMid = pc_peer (heap s h);
          s1 = emit (Log LDebug targetMid ''Ice connection state changed ->'') s;
          s2 = trigger (IceConnectionStateEvent state targetMid) s1;
          s3 = (if state = ICE_COMPLETED \<and> signalingState (heap s2 h) = STABLE
                then stopPeerConnectionHealthCheck targetMid
                       ((emit (Log LDebug targetMid ''Peer connection with user is stable'') s2)
                          \<lparr>peerConnectionHealth := (peerConnectionHealth s2)(targetMid \<mapsto> True)\<rparr>)
                else s2);
          n = (case ICEConnectionFailures s3 targetMid of None \<Rightarrow> 0 | Some k \<Rightarrow> k);
          s4 = s3\<lparr>ICEConnectionFailures := (ICEConnectionFailures s3)(targetMid \<mapsto> n)\<rparr>;
          s5 = (if n > 2
                then s4\<lparr>peerIceTrickleDisabled := (peerIceTrickleDisabled s4)(targetMid \<mapsto> True)\<rparr>
                else s4)
      in if state = ICE_FAILED then
           (let s6 = s5\<lparr>ICEConnectionFailures := (ICEConnectionFailures s5)(targetMid \<mapsto> n + 1)\<rparr>;
                s7 = (if enableIceTrickle s6 \<and> peerIceTrickleDisabled s6 targetMid \<noteq> Some True
                      then trigger (IceConnectionStateEvent ICE_TRICKLE_FAILED targetMid) s6
                      else s6)
            in restartPeerConnection targetMid True True None s7)
         else s5)"

text \<open>\<^verbatim>\<open>pc.onsignalingstatechange\<close> (lines 372-387) of the transport \<open>h\<close>.\<close>

definition onsignalingstatechange :: "nat \<Rightarrow> skylink \<Rightarrow> skylink" where
  "onsignalingstatechange h s =
     (let targetMid = pc_peer (heap s h);
          s1 = emit (Log LDebug targetMid ''Peer connection state changed ->'') s;
          s2 = trigger (PeerConnectionStateEvent (signalingState (heap s1 h)) targetMid) s1
      in if (iceConnectionState (heap s2 h) = ICE_COMPLETED
               \<or> iceConnectionState (heap s2 h) = ICE_CONNECTED)
            \<and> signalingState (heap s2 h) = STABLE
         then stopPeerConnectionHealthCheck targetMid
                ((emit (Log LDebug targetMid ''Peer connection with user is stable'') s2)
                   \<lparr>peerConnectionHealth := (peerConnectionHealth s2)(targetMid \<mapsto> True)\<rparr>)
         else s2)"

text \<open>
  The transport collaborator's move: it changes the native signaling state of the transport
  \<open>h\<close> and invokes \<^verbatim>\<open>pc.onsignalingstatechange\<close>.
\<close>

definition nativeSignalingState :: "nat \<Rightarrow> PEER_CONNECTION_STATE \<Rightarrow> skylink \<Rightarrow> skylink" where
  "nativeSignalingState h st s =
     onsignalingstatechange h (modify h (\<lambda>pc. pc\<lparr>signalingState := st\<rparr>) s)"

text \<open>
  Modelled from the spec: \<^verbatim>\<open>checkIceConnectionState\<close>, which
  \<^verbatim>\<open>pc.oniceconnectionstatechange\<close> (lines 313-368) calls with the native state and the
  callback, is declared elsewhere. The state the transport collaborator reports is the one
  the callback receives: the transport changes its native iceConnectionState and the
  callback runs with that state.
\<close>

definition nativeIceConnectionState :: "nat \<Rightarrow> ICE_CONNECTION_STATE \<Rightarrow> skylink \<Rightarrow> skylink" where
  "nativeIceConnectionState h st s =
     iceConnectionStateCallback h st (modify h (\<lambda>pc. pc\<lparr>iceConnectionState := st\<rparr>) s)"

section \<open>\<^verbatim>\<open>refreshConnection\<close>\<close>

text \<open>
  \<^verbatim>\<open>refreshSinglePeer\<close> (lines 423-441). \<^verbatim>\<open>now - self.lastRestart\<close> is NaN while
  \<^verbatim>\<open>self.lastRestart\<close> is undefined or \<^verbatim>\<open>now\<close> is the fallback function, and a
  comparison with NaN is false.
\<close>

definition refreshSinglePeer :: "string \<Rightarrow> skylink \<Rightarrow> skylink" where
  "refreshSinglePeer peer s =
     (if \<not> truthy (conn s peer) then
        emit (Log LError peer
               ''There is currently no existing peer connection made with the peer. Unable to restart connection'') s
      else
        (let now = dateNow s
         in if (case (now, lastRestart s) of (Some n, Some t) \<Rightarrow> n - t < 3000 | _ \<Rightarrow> False)
            then emit (Log LError peer ''Last restart was so tight. Aborting.'') s
            else restartPeerConnection peer True False None s))"

text \<open>
  \<^verbatim>\<open>toRefresh\<close> (lines 443-453): one peer when the argument is a string (\<open>Some\<close>), every
  own key of the registry otherwise.
\<close>

definition toRefresh :: "string option \<Rightarrow> skylink \<Rightarrow> skylink" where
  "toRefresh peerId s =
     (case peerId of
        None \<Rightarrow> fold refreshSinglePeer (map fst (peerConnections s)) s
      | Some p \<Rightarrow> refreshSinglePeer p s)"

text \<open>
  Modelled from the spec: \<^verbatim>\<open>_throttle\<close> is declared in another file. It lets the function
  run at most once per \<open>wait\<close> milliseconds; a call inside the window is dropped, not
  queued. The throttle is global: line 455 builds the throttled function anew at every
  call, so the time of the last run is kept by the instance (\<open>throttleStamp\<close>), not by the
  wrapper.
\<close>

definition throttleOpen :: "int \<Rightarrow> skylink \<Rightarrow> bool" where
  "throttleOpen wait s =
     (case throttleStamp s of None \<Rightarrow> True | Some t \<Rightarrow> \<not> clock s - t < wait)"

definition throttle :: "(skylink \<Rightarrow> skylink) \<Rightarrow> int \<Rightarrow> skylink \<Rightarrow> skylink" where
  "throttle func wait s =
     (if throttleOpen wait s then (func s)\<lparr>throttleStamp := Some (clock s)\<rparr> else s)"

text \<open>\<^verbatim>\<open>refreshConnection\<close> (lines 414-457).\<close>

definition refreshConnection :: "string option \<Rightarrow> skylink \<Rightarrow> skylink" where
  "refreshConnection peerId s =
     (if hasMCU s then
        emit (Log LWarn (case peerId of Some p \<Rightarrow> p | None \<Rightarrow> [])
               ''Restart functionality for peer's connection for MCU is not yet supported'') s
      else throttle (toRefresh peerId) 5000 s)"

section \<open>Runs and concrete sessions\<close>

text \<open>
  The failure counter as line 330 reads it: an undefined entry counts as 0.
\<close>

definition failures :: "skylink \<Rightarrow> string \<Rightarrow> int" where
  "failures s peerId = (case ICEConnectionFailures s peerId of None \<Rightarrow> 0 | Some k \<Rightarrow> k)"

text \<open>
  A run of calls of \<^verbatim>\<open>refreshConnection\<close>, each with the time at which it is made and its
  argument. \<open>refreshRuns\<close> counts the calls in which \<^verbatim>\<open>toRefresh\<close> is executed.
\<close>

definition refreshExecutes :: "skylink \<Rightarrow> bool" where
  "refreshExecutes s = (\<not> hasMCU s \<and> throttleOpen 5000 s)"

fun refreshRuns :: "(int \<times> string option) list \<Rightarrow> skylink \<Rightarrow> nat" where
  "refreshRuns [] s = 0"
| "refreshRuns ((t, peerId) # calls) s =
     (if refreshExecutes (s\<lparr>clock := t\<rparr>) then 1 else 0)
       + refreshRuns calls (refreshConnection peerId (s\<lparr>clock := t\<rparr>))"

definition state_of :: "'a outcome \<Rightarrow> 'a" where
  "state_of r = (case r of Returned s \<Rightarrow> s | Threw e s \<Rightarrow> s)"

text \<open>A new instance with no peers, on a platform whose constructor succeeds.\<close>

definition fresh :: skylink where
  "fresh =
     \<lparr>peerConnections = [], heap = (\<lambda>h. newPeerConnection []), nextRef = 0,
      rtcAvailable = True, lastRestart = None, hasMCU = False,
      enableDataChannel = True, enableIceTrickle = True,
      peerConnectionHealth = Map.empty, ICEConnectionFailures = Map.empty,
      peerIceTrickleDisabled = Map.empty, peerHSPriorities = Map.empty,
      peerInformations = Map.empty, healthTimers = (\<lambda>p. False),
      waits = [], timers = [], throttleStamp = None, clock = 50000, trace = []\<rparr>"

text \<open>The session after \<^verbatim>\<open>_addPeer('alice', ..., true, false, true)\<close>: one receive-only peer.\<close>

definition joined :: skylink where
  "joined = state_of (addPeer ''alice'' ''chrome'' True False True fresh)"




text \<open>
  A negotiation of that peer in which the signaling state settles first and the transport
  then reports CONNECTED.
\<close>

definition settledThenConnected :: skylink where
  "settledThenConnected =
     nativeIceConnectionState 0 ICE_CONNECTED
       (nativeIceConnectionState 0 ICE_CHECKING
         (nativeSignalingState 0 STABLE
           (nativeSignalingState 0 HAVE_LOCAL_OFFER joined)))"





text \<open>Three connectivity failures of that peer in a row.\<close>

definition failedThrice :: skylink where
  "failedThrice = fold (iceConnectionStateCallback 0) (replicate 3 ICE_FAILED) joined"

section \<open>Observations and what can happen during a restart\<close>

text \<open>
  Whether an event was published, and whether a transport was constructed for a peer, after
  the first \<open>n\<close> entries of the trace.
\<close>

definition publishedSince :: "nat \<Rightarrow> event \<Rightarrow> skylink \<Rightarrow> bool" where
  "publishedSince n ev s = (Trigger ev \<in> set (drop n (trace s)))"




text \<open>
  What can happen while a restart waits: any event is published, the transport behind any
  reference reports a signaling or iceConnectionState change, any pending wait looks at its
  condition, any armed timer gets its turn, time passes, \<^verbatim>\<open>refreshConnection\<close> is called
  with or without a peer, \<^verbatim>\<open>_restartPeerConnection\<close> is called for any peer.
\<close>

datatype step =
    Publish event
  | Signaling nat PEER_CONNECTION_STATE
  | Ice nat ICE_CONNECTION_STATE
  | Look nat
  | Fire nat
  | Tick int
  | Refresh "string option"
  | Restart string bool bool "nat option"

fun perform :: "step \<Rightarrow> skylink \<Rightarrow> skylink" where
  "perform (Publish ev) s = trigger ev s"
| "perform (Signaling h st) s = nativeSignalingState h st s"
| "perform (Ice h st) s = nativeIceConnectionState h st s"
| "perform (Look i) s = waitCheck i s"
| "perform (Fire i) s = state_of (timerFire i s)"
| "perform (Tick d) s = tick d s"
| "perform (Refresh peerId) s = refreshConnection peerId s"
| "perform (Restart peerId a b cb) s = restartPeerConnection peerId a b cb s"

definition run :: "step list \<Rightarrow> skylink \<Rightarrow> skylink" where
  "run steps s = fold perform steps s"




section \<open>How the helpers act on each field\<close>

lemma emit_fields [simp]:
  "peerConnections (emit a s) = peerConnections s"
  "heap (emit a s) = heap s"
  "nextRef (emit a s) = nextRef s"
  "rtcAvailable (emit a s) = rtcAvailable s"
  "lastRestart (emit a s) = lastRestart s"
  "hasMCU (emit a s) = hasMCU s"
  "enableDataChannel (emit a s) = enableDataChannel s"
  "enableIceTrickle (emit a s) = enableIceTrickle s"
  "peerConnectionHealth (emit a s) = peerConnectionHealth s"
  "ICEConnectionFailures (emit a s) = ICEConnectionFailures s"
  "peerIceTrickleDisabled (emit a s) = peerIceTrickleDisabled s"
  "peerHSPriorities (emit a s) = peerHSPriorities s"
  "peerInformations (emit a s) = peerInformations s"
  "healthTimers (emit a s) = healthTimers s"
  "waits (emit a s) = waits s"
  "timers (emit a s) = timers s"
  "throttleStamp (emit a s) = throttleStamp s"
  "clock (emit a s) = clock s"
  "trace (emit a s) = trace s @ [a]"
  by (simp_all add: emit_def)

lemma modify_fields [simp]:
  "peerConnections (modify h f s) = peerConnections s"
  "heap (modify h f s) = (heap s)(h := f (heap s h))"
  "nextRef (modify h f s) = nextRef s"
  "rtcAvailable (modify h f s) = rtcAvailable s"
  "lastRestart (modify h f s) = lastRestart s"
  "hasMCU (modify h f s) = hasMCU s"
  "enableDataChannel (modify h f s) = enableDataChannel s"
  "enableIceTrickle (modify h f s) = enableIceTrickle s"
  "peerConnectionHealth (modify h f s) = peerConnectionHealth s"
  "ICEConnectionFailures (modify h f s) = ICEConnectionFailures s"
  "peerIceTrickleDisabled (modify h f s) = peerIceTrickleDisabled s"
  "peerHSPriorities (modify h f s) = peerHSPriorities s"
  "peerInformations (modify h f s) = peerInformations s"
  "healthTimers (modify h f s) = healthTimers s"
  "waits (modify h f s) = waits s"
  "timers (modify h f s) = timers s"
  "throttleStamp (modify h f s) = throttleStamp s"
  "clock (modify h f s) = clock s"
  "trace (modify h f s) = trace s"
  by (simp_all add: modify_def)

lemma setConn_fields [simp]:
  "peerConnections (setConn p v s) = AList.update p v (peerConnections s)"
  "heap (setConn p v s) = heap s"
  "nextRef (setConn p v s) = nextRef s"
  "rtcAvailable (setConn p v s) = rtcAvailable s"
  "lastRestart (setConn p v s) = lastRestart s"
  "hasMCU (setConn p v s) = hasMCU s"
  "enableDataChannel (setConn p v s) = enableDataChannel s"
  "enableIceTrickle (setConn p v s) = enableIceTrickle s"
  "peerConnectionHealth (setConn p v s) = peerConnectionHealth s"
  "ICEConnectionFailures (setConn p v s) = ICEConnectionFailures s"
  "peerIceTrickleDisabled (setConn p v s) = peerIceTrickleDisabled s"
  "peerHSPriorities (setConn p v s) = peerHSPriorities s"
  "peerInformations (setConn p v s) = peerInformations s"
  "healthTimers (setConn p v s) = healthTimers s"
  "waits (setConn p v s) = waits s"
  "timers (setConn p v s) = timers s"
  "throttleStamp (setConn p v s) = throttleStamp s"
  "clock (setConn p v s) = clock s"
  "trace (setConn p v s) = trace s"
  by (simp_all add: setConn_def)

lemma deleteConn_fields [simp]:
  "peerConnections (deleteConn p s) = AList.delete p (peerConnections s)"
  "heap (deleteConn p s) = heap s"
  "nextRef (deleteConn p s) = nextRef s"
  "rtcAvailable (deleteConn p s) = rtcAvailable s"
  "lastRestart (deleteConn p s) = lastRestart s"
  "hasMCU (deleteConn p s) = hasMCU s"
  "enableDataChannel (deleteConn p s) = enableDataChannel s"
  "enableIceTrickle (deleteConn p s) = enableIceTrickle s"
  "peerConnectionHealth (deleteConn p s) = peerConnectionHealth s"
  "ICEConnectionFailures (deleteConn p s) = ICEConnectionFailures s"
  "peerIceTrickleDisabled (deleteConn p s) = peerIceTrickleDisabled s"
  "peerHSPriorities (deleteConn p s) = peerHSPriorities s"
  "peerInformations (deleteConn p s) = peerInformations s"
  "healthTimers (deleteConn p s) = healthTimers s"
  "waits (deleteConn p s) = waits s"
  "timers (deleteConn p s) = timers s"
  "throttleStamp (deleteConn p s) = throttleStamp s"
  "clock (deleteConn p s) = clock s"
  "trace (deleteConn p s) = trace s"
  by (simp_all add: deleteConn_def)

lemma trigger_fields [simp]:
  "peerConnections (trigger ev s) = peerConnections s"
  "heap (trigger ev s) = heap s"
  "nextRef (trigger ev s) = nextRef s"
  "rtcAvailable (trigger ev s) = rtcAvailable s"
  "lastRestart (trigger ev s) = lastRestart s"
  "hasMCU (trigger ev s) = hasMCU s"
  "enableDataChannel (trigger ev s) = enableDataChannel s"
  "enableIceTrickle (trigger ev s) = enableIceTrickle s"
  "peerConnectionHealth (trigger ev s) = peerConnectionHealth s"
  "ICEConnectionFailures (trigger ev s) = ICEConnectionFailures s"
  "peerIceTrickleDisabled (trigger ev s) = peerIceTrickleDisabled s"
  "peerHSPriorities (trigger ev s) = peerHSPriorities s"
  "peerInformations (trigger ev s) = peerInformations s"
  "healthTimers (trigger ev s) = healthTimers s"
  "waits (trigger ev s) = map (notify ev) (waits s)"
  "timers (trigger ev s) = timers s"
  "throttleStamp (trigger ev s) = throttleStamp s"
  "clock (trigger ev s) = clock s"
  "trace (trigger ev s) = trace s @ [Trigger ev]"
  by (simp_all add: trigger_def emit_def)

lemma stopHealth_fields [simp]:
  "peerConnections (stopPeerConnectionHealthCheck p s) = peerConnections s"
  "heap (stopPeerConnectionHealthCheck p s) = heap s"
  "nextRef (stopPeerConnectionHealthCheck p s) = nextRef s"
  "rtcAvailable (stopPeerConnectionHealthCheck p s) = rtcAvailable s"
  "lastRestart (stopPeerConnectionHealthCheck p s) = lastRestart s"
  "hasMCU (stopPeerConnectionHealthCheck p s) = hasMCU s"
  "enableDataChannel (stopPeerConnectionHealthCheck p s) = enableDataChannel s"
  "enableIceTrickle (stopPeerConnectionHealthCheck p s) = enableIceTrickle s"
  "peerConnectionHealth (stopPeerConnectionHealthCheck p s) = peerConnectionHealth s"
  "ICEConnectionFailures (stopPeerConnectionHealthCheck p s) = ICEConnectionFailures s"
  "peerIceTrickleDisabled (stopPeerConnectionHealthCheck p s) = peerIceTrickleDisabled s"
  "peerHSPriorities (stopPeerConnectionHealthCheck p s) = peerHSPriorities s"
  "peerInformations (stopPeerConnectionHealthCheck p s) = peerInformations s"
  "healthTimers (stopPeerConnectionHealthCheck p s) = (healthTimers s)(p := False)"
  "waits (stopPeerConnectionHealthCheck p s) = waits s"
  "timers (stopPeerConnectionHealthCheck p s) = timers s"
  "throttleStamp (stopPeerConnectionHealthCheck p s) = throttleStamp s"
  "clock (stopPeerConnectionHealthCheck p s) = clock s"
  "trace (stopPeerConnectionHealthCheck p s) = trace s"
  by (simp_all add: stopPeerConnectionHealthCheck_def)

lemma startHealth_fields [simp]:
  "peerConnections (startPeerConnectionHealthCheck p s) = peerConnections s"
  "heap (startPeerConnectionHealthCheck p s) = heap s"
  "nextRef (startPeerConnectionHealthCheck p s) = nextRef s"
  "rtcAvailable (startPeerConnectionHealthCheck p s) = rtcAvailable s"
  "lastRestart (startPeerConnectionHealthCheck p s) = lastRestart s"
  "hasMCU (startPeerConnectionHealthCheck p s) = hasMCU s"
  "enableDataChannel (startPeerConnectionHealthCheck p s) = enableDataChannel s"
  "enableIceTrickle (startPeerConnectionHealthCheck p s) = enableIceTrickle s"
  "peerConnectionHealth (startPeerConnectionHealthCheck p s) = peerConnectionHealth s"
  "ICEConnectionFailures (startPeerConnectionHealthCheck p s) = ICEConnectionFailures s"
  "peerIceTrickleDisabled (startPeerConnectionHealthCheck p s) = peerIceTrickleDisabled s"
  "peerHSPriorities (startPeerConnectionHealthCheck p s) = peerHSPriorities s"
  "peerInformations (startPeerConnectionHealthCheck p s) = peerInformations s"
  "healthTimers (startPeerConnectionHealthCheck p s) = (healthTimers s)(p := True)"
  "waits (startPeerConnectionHealthCheck p s) = waits s"
  "timers (startPeerConnectionHealthCheck p s) = timers s"
  "throttleStamp (startPeerConnectionHealthCheck p s) = throttleStamp s"
  "clock (startPeerConnectionHealthCheck p s) = clock s"
  "trace (startPeerConnectionHealthCheck p s) = trace s"
  by (simp_all add: startPeerConnectionHealthCheck_def)

lemma tick_fields [simp]:
  "peerConnections (tick d s) = peerConnections s"
  "heap (tick d s) = heap s"
  "nextRef (tick d s) = nextRef s"
  "rtcAvailable (tick d s) = rtcAvailable s"
  "lastRestart (tick d s) = lastRestart s"
  "hasMCU (tick d s) = hasMCU s"
  "enableDataChannel (tick d s) = enableDataChannel s"
  "enableIceTrickle (tick d s) = enableIceTrickle s"
  "peerConnectionHealth (tick d s) = peerConnectionHealth s"
  "ICEConnectionFailures (tick d s) = ICEConnectionFailures s"
  "peerIceTrickleDisabled (tick d s) = peerIceTrickleDisabled s"
  "peerHSPriorities (tick d s) = peerHSPriorities s"
  "peerInformations (tick d s) = peerInformations s"
  "healthTimers (tick d s) = healthTimers s"
  "waits (tick d s) = waits s"
  "timers (tick d s) = timers s"
  "throttleStamp (tick d s) = throttleStamp s"
  "clock (tick d s) = clock s + d"
  "trace (tick d s) = trace s"
  by (simp_all add: tick_def)

lemma conn_emit [simp]: "conn (emit a s) = conn s"
  by (rule ext) (simp add: conn_def)

lemma conn_modify [simp]: "conn (modify h f s) = conn s"
  by (rule ext) (simp add: conn_def)

lemma conn_trigger [simp]: "conn (trigger ev s) = conn s"
  by (rule ext) (simp add: conn_def)

lemma conn_stopHealth [simp]: "conn (stopPeerConnectionHealthCheck p s) = conn s"
  by (rule ext) (simp add: conn_def)

lemma conn_startHealth [simp]: "conn (startPeerConnectionHealthCheck p s) = conn s"
  by (rule ext) (simp add: conn_def)

lemma conn_tick [simp]: "conn (tick d s) = conn s"
  by (rule ext) (simp add: conn_def)

lemma conn_setConn [simp]: "conn (setConn p v s) = (conn s)(p \<mapsto> v)"
  by (rule ext) (simp add: conn_def update_conv')

lemma conn_deleteConn [simp]: "conn (deleteConn p s) = (conn s)(p := None)"
  by (rule ext) (simp add: conn_def delete_conv')

lemma conn_fields [simp]:
  "conn (s\<lparr>heap := x0\<rparr>) = conn s"
  "conn (s\<lparr>nextRef := x1\<rparr>) = conn s"
  "conn (s\<lparr>rtcAvailable := x2\<rparr>) = conn s"
  "conn (s\<lparr>lastRestart := x3\<rparr>) = conn s"
  "conn (s\<lparr>hasMCU := x4\<rparr>) = conn s"
  "conn (s\<lparr>enableDataChannel := x5\<rparr>) = conn s"
  "conn (s\<lparr>enableIceTrickle := x6\<rparr>) = conn s"
  "conn (s\<lparr>peerConnectionHealth := x7\<rparr>) = conn s"
  "conn (s\<lparr>ICEConnectionFailures := x8\<rparr>) = conn s"
  "conn (s\<lparr>peerIceTrickleDisabled := x9\<rparr>) = conn s"
  "conn (s\<lparr>peerHSPriorities := x10\<rparr>) = conn s"
  "conn (s\<lparr>peerInformations := x11\<rparr>) = conn s"
  "conn (s\<lparr>healthTimers := x12\<rparr>) = conn s"
  "conn (s\<lparr>waits := x13\<rparr>) = conn s"
  "conn (s\<lparr>timers := x14\<rparr>) = conn s"
  "conn (s\<lparr>throttleStamp := x15\<rparr>) = conn s"
  "conn (s\<lparr>clock := x16\<rparr>) = conn s"
  "conn (s\<lparr>trace := x17\<rparr>) = conn s"
  by (rule ext, simp add: conn_def)+

lemma truthy_Ref: "truthy v \<longleftrightarrow> (\<exists>h. v = Some (Ref h))"
  by (cases v rule: truthy.cases) simp_all

lemma notify_StreamEnded [simp]: "map (notify (StreamEnded p)) ws = ws"
  by (induction ws) simp_all

lemma notify_PeerRestart [simp]: "map (notify (PeerRestart p b)) ws = ws"
  by (induction ws) simp_all

lemma notify_PeerLeft [simp]: "map (notify (PeerLeft p i)) ws = ws"
  by (induction ws) simp_all

lemma notify_ice_open: "st \<noteq> ICE_CLOSED \<Longrightarrow> map (notify (IceConnectionStateEvent st p)) ws = ws"
  by (induction ws) simp_all

lemma notify_pc_open: "st \<noteq> CLOSED \<Longrightarrow> map (notify (PeerConnectionStateEvent st p)) ws = ws"
  by (induction ws) simp_all

section \<open>The factory and \<^verbatim>\<open>_addPeer\<close>\<close>

lemma create_ok:
  assumes "rtcAvailable s"
  shows "fst (createPeerConnection p s) = Ref (nextRef s)"
    and "conn (snd (createPeerConnection p s)) = conn s"
    and "heap (snd (createPeerConnection p s)) = (heap s)(nextRef s := newPeerConnection p)"
    and "nextRef (snd (createPeerConnection p s)) = Suc (nextRef s)"
    and "trace (snd (createPeerConnection p s)) =
           trace s @ [Construct (nextRef s) p, Log LInfo p ''Created peer connection'',
                      Log LDebug p ''Peer connection config:'',
                      Log LDebug p ''Peer connection constraints:'']"
    and "timers (snd (createPeerConnection p s)) = timers s"
    and "clock (snd (createPeerConnection p s)) = clock s"
    and "waits (snd (createPeerConnection p s)) = waits s"
    and "rtcAvailable (snd (createPeerConnection p s))"
  using assms by (simp_all add: createPeerConnection_def Let_def conn_def)

lemma create_fails:
  assumes "\<not> rtcAvailable s"
  shows "createPeerConnection p s = (Null, emit (Log LError p ''Failed creating peer connection:'') s)"
  using assms by (simp add: createPeerConnection_def)

lemma fresh_facts:
  "peerConnections fresh = []"
  "conn fresh p = None"
  "trace fresh = []"
  "rtcAvailable fresh"
  "nextRef fresh = 0"
  by (simp_all add: fresh_def conn_def)

lemma joined_facts:
  "peerConnections joined = [(''alice'', Ref 0)]"
  "conn joined ''alice'' = Some (Ref 0)"
  "heap joined 0 = (newPeerConnection ''alice'')\<lparr>receiveOnly := Some True\<rparr>"
  "nextRef joined = 1"
  "rtcAvailable joined"
  "waits joined = []"
  "timers joined = []"
  "clock joined = 50000"
  "healthTimers joined ''alice''"
  "lastRestart joined = None"
  "\<not> hasMCU joined"
  "throttleStamp joined = None"
  "enableIceTrickle joined"
  "ICEConnectionFailures joined = Map.empty"
  "peerIceTrickleDisabled joined = Map.empty"
  "peerConnectionHealth joined = Map.empty"
  by (simp_all add: joined_def addPeer_def createPeerConnection_def Let_def fresh_def state_of_def
        conn_def setConn_def)


text \<open>
  C6. For every peer that already has a record, \<^verbatim>\<open>_addPeer\<close> on the non-restart path logs
  the duplicate-connection error and returns; the log line is the only change, so the
  registry, the existing record with its transport and \<^verbatim>\<open>receiveOnly\<close>, and every other
  field are as before.
\<close>

theorem addPeer_duplicate:
  "conn s p = Some (Ref h) \<Longrightarrow>
   addPeer p browser toOffer False recvOnly s =
     Returned (s\<lparr>trace := trace s @ [Log LError p ''Connection to peer has already been made'']\<rparr>)"
  by (simp add: addPeer_def emit_def)

theorem addPeer_duplicate_witness:
  "conn joined ''alice'' = Some (Ref 0)
   \<and> addPeer ''alice'' ''chrome'' True False False joined =
     Returned (joined\<lparr>trace := trace joined @
                 [Log LError ''alice'' ''Connection to peer has already been made'']\<rparr>)"
  using addPeer_duplicate [of joined "''alice''" 0 "''chrome''" True False]
  by (simp add: joined_facts)

text \<open>
  C7. When the allocation of the transport fails, \<^verbatim>\<open>_createPeerConnection\<close> logs the
  error and returns null without doing anything else. \<^verbatim>\<open>_addPeer\<close> for a peer without
  a record does not test for that null: line 78 stores it under the peer id, so the
  registry gains the peer id as a key (with the value null), and line 80 then throws a
  TypeError. Nothing was allocated, and no stream, offer or watchdog was started.
\<close>

theorem addPeer_registers_null_on_failure:
  "\<not> rtcAvailable s \<Longrightarrow> \<not> truthy (conn s p) \<Longrightarrow>
   createPeerConnection p s =
     (Null, s\<lparr>trace := trace s @ [Log LError p ''Failed creating peer connection:'']\<rparr>)
   \<and> addPeer p browser toOffer False recvOnly s =
       Threw TypeError
        (s\<lparr>peerConnections := AList.update p Null (peerConnections s),
           trace := trace s @ [Log LLog p ''Starting the connection to peer. Options provided:'',
                             Log LError p ''Failed creating peer connection:'']\<rparr>)
   \<and> conn (state_of (addPeer p browser toOffer False recvOnly s)) p = Some Null
   \<and> p \<in> fst ` set (peerConnections (state_of (addPeer p browser toOffer False recvOnly s)))
   \<and> nextRef (state_of (addPeer p browser toOffer False recvOnly s)) = nextRef s"
  by (simp add: createPeerConnection_def addPeer_def emit_def setConn_def conn_def update_conv'
        state_of_def dom_update)

theorem addPeer_registers_null_on_failure_witness:
  "\<not> rtcAvailable (fresh\<lparr>rtcAvailable := False\<rparr>)
   \<and> \<not> truthy (conn (fresh\<lparr>rtcAvailable := False\<rparr>) ''alice'')
   \<and> peerConnections (fresh\<lparr>rtcAvailable := False\<rparr>) = []
   \<and> addPeer ''alice'' ''chrome'' True False False (fresh\<lparr>rtcAvailable := False\<rparr>) =
       Threw TypeError
        (fresh\<lparr>rtcAvailable := False, peerConnections := [(''alice'', Null)],
           trace := [Log LLog ''alice'' ''Starting the connection to peer. Options provided:'',
                     Log LError ''alice'' ''Failed creating peer connection:'']\<rparr>)"
  using addPeer_registers_null_on_failure
          [of "fresh\<lparr>rtcAvailable := False\<rparr>" "''alice''" "''chrome''" True False]
  by (simp add: fresh_facts conn_def)

text \<open>
  C10. For every peer without a record, \<^verbatim>\<open>_addPeer\<close> with \<^verbatim>\<open>restartConn = true\<close> passes
  the duplicate guard, skips the allocation and throws at line 80 when it dereferences the
  absent record: only the opening log line was written, so no record is registered.
\<close>

theorem addPeer_restart_without_record:
  "\<not> truthy (conn s p) \<Longrightarrow>
   addPeer p browser toOffer True recvOnly s =
     Threw TypeError
       (s\<lparr>trace := trace s @ [Log LLog p ''Starting the connection to peer. Options provided:'']\<rparr>)"
  by (cases "conn s p" rule: truthy.cases) (simp_all add: addPeer_def emit_def conn_def)

theorem addPeer_restart_without_record_witness:
  "\<not> truthy (conn fresh ''alice'')
   \<and> addPeer ''alice'' ''chrome'' True True False fresh =
     Threw TypeError
       (fresh\<lparr>trace := [Log LLog ''alice''
                           ''Starting the connection to peer. Options provided:'']\<rparr>)"
  using addPeer_restart_without_record [of fresh "''alice''" "''chrome''" True False]
  by (simp add: fresh_facts)


section \<open>What a restart changes\<close>


lemma restart_absent:
  assumes "\<not> truthy (conn s p)"
  shows "restartPeerConnection p a b cb s =
           emit (Log LError p ''Peer does not have an existing connection. Unable to restart'') s"
  using assms
  by (cases "conn s p" rule: truthy.cases) (simp_all add: restartPeerConnection_def)

lemma restart_frame:
  "peerConnections (restartPeerConnection p a b cb s) = peerConnections s"
  "nextRef (restartPeerConnection p a b cb s) = nextRef s"
  "rtcAvailable (restartPeerConnection p a b cb s) = rtcAvailable s"
  "lastRestart (restartPeerConnection p a b cb s) = lastRestart s"
  "hasMCU (restartPeerConnection p a b cb s) = hasMCU s"
  "enableIceTrickle (restartPeerConnection p a b cb s) = enableIceTrickle s"
  "ICEConnectionFailures (restartPeerConnection p a b cb s) = ICEConnectionFailures s"
  "peerIceTrickleDisabled (restartPeerConnection p a b cb s) = peerIceTrickleDisabled s"
  "timers (restartPeerConnection p a b cb s) = timers s"
  "throttleStamp (restartPeerConnection p a b cb s) = throttleStamp s"
  "clock (restartPeerConnection p a b cb s) = clock s"
  "pc_peer (heap (restartPeerConnection p a b cb s) k) = pc_peer (heap s k)"
  by (cases "conn s p" rule: truthy.cases; simp add: restartPeerConnection_def Let_def)+

lemma restart_trace:
  "\<exists>tr. trace (restartPeerConnection p a b cb s) = trace s @ tr
        \<and> (\<forall>st q. Trigger (IceConnectionStateEvent st q) \<notin> set tr)"
  by (cases "conn s p" rule: truthy.cases) (simp_all add: restartPeerConnection_def Let_def)

section \<open>What the handlers change\<close>

lemma ice_other:
  assumes "st \<noteq> ICE_FAILED"
  shows "conn (iceConnectionStateCallback h st s) = conn s"
    and "heap (iceConnectionStateCallback h st s) = heap s"
    and "nextRef (iceConnectionStateCallback h st s) = nextRef s"
    and "waits (iceConnectionStateCallback h st s) =
           map (notify (IceConnectionStateEvent st (pc_peer (heap s h)))) (waits s)"
    and "peerConnectionHealth (iceConnectionStateCallback h st s) =
           (if st = ICE_COMPLETED \<and> signalingState (heap s h) = STABLE
            then (peerConnectionHealth s)(pc_peer (heap s h) \<mapsto> True)
            else peerConnectionHealth s)"
    and "healthTimers (iceConnectionStateCallback h st s) =
           (if st = ICE_COMPLETED \<and> signalingState (heap s h) = STABLE
            then (healthTimers s)(pc_peer (heap s h) := False)
            else healthTimers s)"
    and "trace (iceConnectionStateCallback h st s) =
           trace s @ [Log LDebug (pc_peer (heap s h)) ''Ice connection state changed ->'',
                      Trigger (IceConnectionStateEvent st (pc_peer (heap s h)))]
             @ (if st = ICE_COMPLETED \<and> signalingState (heap s h) = STABLE
                then [Log LDebug (pc_peer (heap s h)) ''Peer connection with user is stable'']
                else [])"
    and "timers (iceConnectionStateCallback h st s) = timers s"
    and "clock (iceConnectionStateCallback h st s) = clock s"
    and "rtcAvailable (iceConnectionStateCallback h st s) = rtcAvailable s"
  using assms by (simp_all add: iceConnectionStateCallback_def Let_def)

lemma ice_counters:
  "ICEConnectionFailures (iceConnectionStateCallback h st s) (pc_peer (heap s h)) =
     Some (failures s (pc_peer (heap s h)) + (if st = ICE_FAILED then 1 else 0))"
  "peerIceTrickleDisabled (iceConnectionStateCallback h st s) (pc_peer (heap s h)) =
     (if failures s (pc_peer (heap s h)) > 2 then Some True
      else peerIceTrickleDisabled s (pc_peer (heap s h)))"
  "pc_peer (heap (iceConnectionStateCallback h st s) k) = pc_peer (heap s k)"
  "enableIceTrickle (iceConnectionStateCallback h st s) = enableIceTrickle s"
  by (simp_all add: iceConnectionStateCallback_def Let_def restart_frame failures_def)

lemma signaling_fields:
  "conn (onsignalingstatechange h s) = conn s"
  "heap (onsignalingstatechange h s) = heap s"
  "nextRef (onsignalingstatechange h s) = nextRef s"
  "waits (onsignalingstatechange h s) =
     map (notify (PeerConnectionStateEvent (signalingState (heap s h)) (pc_peer (heap s h))))
       (waits s)"
  "peerConnectionHealth (onsignalingstatechange h s) =
     (if (iceConnectionState (heap s h) = ICE_COMPLETED
            \<or> iceConnectionState (heap s h) = ICE_CONNECTED)
         \<and> signalingState (heap s h) = STABLE
      then (peerConnectionHealth s)(pc_peer (heap s h) \<mapsto> True)
      else peerConnectionHealth s)"
  "healthTimers (onsignalingstatechange h s) =
     (if (iceConnectionState (heap s h) = ICE_COMPLETED
            \<or> iceConnectionState (heap s h) = ICE_CONNECTED)
         \<and> signalingState (heap s h) = STABLE
      then (healthTimers s)(pc_peer (heap s h) := False)
      else healthTimers s)"
  "trace (onsignalingstatechange h s) =
     trace s @ [Log LDebug (pc_peer (heap s h)) ''Peer connection state changed ->'',
                Trigger (PeerConnectionStateEvent (signalingState (heap s h)) (pc_peer (heap s h)))]
       @ (if (iceConnectionState (heap s h) = ICE_COMPLETED
                \<or> iceConnectionState (heap s h) = ICE_CONNECTED)
             \<and> signalingState (heap s h) = STABLE
          then [Log LDebug (pc_peer (heap s h)) ''Peer connection with user is stable'']
          else [])"
  "timers (onsignalingstatechange h s) = timers s"
  "clock (onsignalingstatechange h s) = clock s"
  "rtcAvailable (onsignalingstatechange h s) = rtcAvailable s"
  "ICEConnectionFailures (onsignalingstatechange h s) = ICEConnectionFailures s"
  "peerIceTrickleDisabled (onsignalingstatechange h s) = peerIceTrickleDisabled s"
  by (simp_all add: onsignalingstatechange_def Let_def)

section \<open>The barrier and the timer\<close>



lemma restartTimeout_absent:
  assumes "\<not> truthy (conn s (r_peerId e))"
  shows "restartTimeout e s = Threw TypeError s"
  using assms
  by (cases "conn s (r_peerId e)" rule: truthy.cases) (simp_all add: restartTimeout_def)







section \<open>The barrier\<close>

lemma notify_peer [simp]: "r_peerId (w_env (notify ev w)) = r_peerId (w_env w)"
  by (cases ev) simp_all

















lemma ice_failed_run:
  assumes peer: "pc_peer (heap s h) = p"
  shows "\<exists>s7. iceConnectionStateCallback h ICE_FAILED s = restartPeerConnection p True True None s7
     \<and> ICEConnectionFailures s7 p = Some (failures s p + 1)
     \<and> peerIceTrickleDisabled s7 p
         = (if failures s p > 2 then Some True else peerIceTrickleDisabled s p)
     \<and> trace s7 = trace s
         @ [Log LDebug p ''Ice connection state changed ->'',
            Trigger (IceConnectionStateEvent ICE_FAILED p)]
         @ (if enableIceTrickle s \<and> peerIceTrickleDisabled s p \<noteq> Some True
                \<and> \<not> failures s p > 2
            then [Trigger (IceConnectionStateEvent ICE_TRICKLE_FAILED p)] else [])
     \<and> conn s7 = conn s \<and> heap s7 = heap s \<and> waits s7 = waits s
     \<and> lastRestart s7 = lastRestart s \<and> clock s7 = clock s
     \<and> throttleStamp s7 = throttleStamp s \<and> hasMCU s7 = hasMCU s"
proof -
  define s2 where "s2 = trigger (IceConnectionStateEvent ICE_FAILED p)
                          (emit (Log LDebug p ''Ice connection state changed ->'') s)"
  define n where "n = (case ICEConnectionFailures s2 p of None \<Rightarrow> 0 | Some k \<Rightarrow> k)"
  define s4 where "s4 = s2\<lparr>ICEConnectionFailures := (ICEConnectionFailures s2)(p \<mapsto> n)\<rparr>"
  define s5 where "s5 = (if n > 2
                then s4\<lparr>peerIceTrickleDisabled := (peerIceTrickleDisabled s4)(p \<mapsto> True)\<rparr>
                else s4)"
  define s6 where "s6 = s5\<lparr>ICEConnectionFailures := (ICEConnectionFailures s5)(p \<mapsto> n + 1)\<rparr>"
  define s7 where "s7 = (if enableIceTrickle s6 \<and> peerIceTrickleDisabled s6 p \<noteq> Some True
                      then trigger (IceConnectionStateEvent ICE_TRICKLE_FAILED p) s6
                      else s6)"
  have run: "iceConnectionStateCallback h ICE_FAILED s = restartPeerConnection p True True None s7"
    unfolding iceConnectionStateCallback_def Let_def peer s7_def s6_def s5_def s4_def n_def s2_def
    by (simp only: ICE_CONNECTION_STATE.distinct simp_thms if_True if_False)
  have n: "n = failures s p"
    by (simp add: n_def s2_def failures_def)
  have c: "ICEConnectionFailures s7 p = Some (failures s p + 1)"
    by (simp add: s7_def s6_def s5_def s4_def n)
  have f6: "peerIceTrickleDisabled s6 p
         = (if failures s p > 2 then Some True else peerIceTrickleDisabled s p)"
    and e6: "enableIceTrickle s6 = enableIceTrickle s"
    by (simp_all add: s6_def s5_def s4_def s2_def n)
  have f: "peerIceTrickleDisabled s7 p
         = (if failures s p > 2 then Some True else peerIceTrickleDisabled s p)"
    by (simp add: s7_def f6)
  have t6: "trace s6 = trace s @ [Log LDebug p ''Ice connection state changed ->'',
            Trigger (IceConnectionStateEvent ICE_FAILED p)]"
    by (simp add: s6_def s5_def s4_def s2_def)
  have t: "trace s7 = trace s
         @ [Log LDebug p ''Ice connection state changed ->'',
            Trigger (IceConnectionStateEvent ICE_FAILED p)]
         @ (if enableIceTrickle s \<and> peerIceTrickleDisabled s p \<noteq> Some True
                \<and> \<not> failures s p > 2
            then [Trigger (IceConnectionStateEvent ICE_TRICKLE_FAILED p)] else [])"
    by (simp add: s7_def f6 e6 t6)
  have r: "conn s7 = conn s \<and> heap s7 = heap s \<and> waits s7 = waits s
     \<and> lastRestart s7 = lastRestart s \<and> clock s7 = clock s
     \<and> throttleStamp s7 = throttleStamp s \<and> hasMCU s7 = hasMCU s"
    by (simp add: s7_def s6_def s5_def s4_def s2_def notify_ice_open)
  show ?thesis
    using run c f t r by (intro exI[of _ s7]) simp
qed


























section \<open>Unknown peers\<close>

lemma refreshSinglePeer_absent:
  assumes "\<not> truthy (conn s p)"
  shows "refreshSinglePeer p s =
           emit (Log LError p
                  ''There is currently no existing peer connection made with the peer. Unable to restart connection'') s"
  using assms by (simp add: refreshSinglePeer_def)

lemma removePeer_absent:
  assumes "\<not> truthy (conn s p)"
  shows "removePeer p s =
           Threw TypeError
             (stopPeerConnectionHealthCheck p
               (if p \<noteq> ''MCU'' then trigger (PeerLeft p (peerInformations s p)) s
                else emit (Log LLog p ''MCU has stopped listening and left'') (s\<lparr>hasMCU := False\<rparr>)))"
  using assms
  by (cases "p = ''MCU''"; cases "conn s p" rule: truthy.cases)
     (auto simp add: removePeer_def Let_def)

text \<open>
  C8. For a peer without a record, restart and refresh log one error line and change
  nothing else. \<^verbatim>\<open>_removePeer\<close> does not: line 230 dereferences the absent record before the
  test of line 233, so the call publishes \<^verbatim>\<open>peerLeft\<close> (or clears the relay flag), stops the
  watchdog and then throws a TypeError, with the registry as it was.
\<close>

theorem unknown_peer_operations:
  "\<not> truthy (conn s p) \<Longrightarrow>
   restartPeerConnection p a b cb s =
     s\<lparr>trace := trace s @
          [Log LError p ''Peer does not have an existing connection. Unable to restart'']\<rparr>
   \<and> refreshSinglePeer p s =
     s\<lparr>trace := trace s @
          [Log LError p
            ''There is currently no existing peer connection made with the peer. Unable to restart connection'']\<rparr>
   \<and> (\<exists>s'. removePeer p s = Threw TypeError s' \<and> peerConnections s' = peerConnections s)"
  by (simp add: restart_absent refreshSinglePeer_absent removePeer_absent emit_def)

theorem unknown_peer_operations_witness:
  "\<not> truthy (conn fresh ''bob'')
   \<and> removePeer ''bob'' fresh =
       Threw TypeError
         (stopPeerConnectionHealthCheck ''bob'' (trigger (PeerLeft ''bob'' None) fresh))
   \<and> (\<exists>s'. removePeer ''bob'' fresh = Threw TypeError s' \<and> peerConnections s' = [])"
  using unknown_peer_operations [of fresh "''bob''" True True None]
  by (simp add: fresh_facts removePeer_absent) (simp add: fresh_def)

section \<open>The restart cooldown of \<^verbatim>\<open>refreshConnection\<close>\<close>








section \<open>Connectivity failures\<close>

lemma ice_step:
  assumes "pc_peer (heap s h) = p"
  shows "failures (iceConnectionStateCallback h st s) p =
           failures s p + (if st = ICE_FAILED then 1 else 0)"
    and "peerIceTrickleDisabled (iceConnectionStateCallback h st s) p =
           (if failures s p > 2 then Some True else peerIceTrickleDisabled s p)"
    and "pc_peer (heap (iceConnectionStateCallback h st s) h) = p"
  using ice_counters(1,2)[of h st s] assms
  by (simp_all add: failures_def ice_counters(3))

lemma failed_run:
  assumes "pc_peer (heap s h) = p"
  shows "failures (fold (iceConnectionStateCallback h) (replicate n ICE_FAILED) s) p
           = failures s p + int n
       \<and> peerIceTrickleDisabled (fold (iceConnectionStateCallback h) (replicate n ICE_FAILED) s) p
           = (if 0 < n \<and> failures s p + int n > 3 then Some True
              else peerIceTrickleDisabled s p)"
  using assms
proof (induction n arbitrary: s)
  case 0
  then show ?case by simp
next
  case (Suc n)
  let ?s = "iceConnectionStateCallback h ICE_FAILED s"
  have peer: "pc_peer (heap ?s h) = p"
    by (rule ice_step(3)[OF Suc.prems])
  have f: "failures ?s p = failures s p + 1"
    using ice_step(1)[OF Suc.prems, of ICE_FAILED] by simp
  have d: "peerIceTrickleDisabled ?s p =
             (if failures s p > 2 then Some True else peerIceTrickleDisabled s p)"
    by (rule ice_step(2)[OF Suc.prems])
  from Suc.IH[OF peer] show ?case
    by (cases n) (simp_all add: f d)
qed

text \<open>
  C3 (as amended). The handler tests the failure count (\<^verbatim>\<open>> 2\<close>, line 334) before it
  increments it (line 339). For the peer \<open>p\<close> of a transport, a run of \<open>n\<close> FAILED
  transitions adds \<open>n\<close> to the count, and sets \<^verbatim>\<open>iceTrickleDisabled\<close> exactly when the
  count then exceeds 3: starting from no failures, the flag is as before after three
  FAILED transitions and true from the fourth on. Every transition of any state sets the
  flag once the count is above 2, and never unsets it.
\<close>

theorem trickle_disabled_on_fourth_failure:
  "pc_peer (heap s h) = p \<Longrightarrow>
   failures (fold (iceConnectionStateCallback h) (replicate n ICE_FAILED) s) p
     = failures s p + int n
   \<and> peerIceTrickleDisabled (fold (iceConnectionStateCallback h) (replicate n ICE_FAILED) s) p
     = (if 0 < n \<and> failures s p + int n > 3 then Some True else peerIceTrickleDisabled s p)
   \<and> peerIceTrickleDisabled (iceConnectionStateCallback h st s) p
     = (if failures s p > 2 then Some True else peerIceTrickleDisabled s p)"
  using failed_run[of s h p n] ice_step(2)[of s h p st] by simp

theorem trickle_disabled_on_fourth_failure_witness:
  "pc_peer (heap joined 0) = ''alice''
   \<and> peerIceTrickleDisabled (fold (iceConnectionStateCallback 0) (replicate 3 ICE_FAILED) joined)
        ''alice'' = None
   \<and> peerIceTrickleDisabled (fold (iceConnectionStateCallback 0) (replicate 4 ICE_FAILED) joined)
        ''alice'' = Some True
   \<and> peerIceTrickleDisabled (fold (iceConnectionStateCallback 0) (replicate 5 ICE_FAILED) joined)
        ''alice'' = Some True"
  using trickle_disabled_on_fourth_failure [of joined 0 "''alice''" 3]
    trickle_disabled_on_fourth_failure [of joined 0 "''alice''" 4]
    trickle_disabled_on_fourth_failure [of joined 0 "''alice''" 5]
  by (simp add: joined_facts failures_def newPeerConnection_def)

text \<open>
  C3 as stated fails: after exactly three consecutive FAILED transitions of the transport
  of \<open>alice\<close> the count is 3 and the flag is not set.
\<close>

theorem three_failures_leave_trickle_enabled:
  "failures (fold (iceConnectionStateCallback 0) (replicate 3 ICE_FAILED) joined) ''alice'' = 3
   \<and> peerIceTrickleDisabled (fold (iceConnectionStateCallback 0) (replicate 3 ICE_FAILED) joined)
        ''alice'' \<noteq> Some True"
  using failed_run [of joined 0 "''alice''" 3]
  by (simp add: joined_facts failures_def newPeerConnection_def)

lemma ice_failed_trace:
  assumes peer: "pc_peer (heap s h) = p"
  shows "\<exists>tr. trace (iceConnectionStateCallback h ICE_FAILED s) = trace s
         @ [Log LDebug p ''Ice connection state changed ->'',
            Trigger (IceConnectionStateEvent ICE_FAILED p)]
         @ (if enableIceTrickle s \<and> peerIceTrickleDisabled s p \<noteq> Some True
                \<and> \<not> failures s p > 2
            then [Trigger (IceConnectionStateEvent ICE_TRICKLE_FAILED p)] else [])
         @ tr
       \<and> (\<forall>st q. Trigger (IceConnectionStateEvent st q) \<notin> set tr)"
proof -
  from ice_failed_run[OF peer] obtain s7 where
    run: "iceConnectionStateCallback h ICE_FAILED s = restartPeerConnection p True True None s7"
    and tr7: "trace s7 = trace s
         @ [Log LDebug p ''Ice connection state changed ->'',
            Trigger (IceConnectionStateEvent ICE_FAILED p)]
         @ (if enableIceTrickle s \<and> peerIceTrickleDisabled s p \<noteq> Some True
                \<and> \<not> failures s p > 2
            then [Trigger (IceConnectionStateEvent ICE_TRICKLE_FAILED p)] else [])"
    by blast
  obtain tr where tr: "trace (restartPeerConnection p True True None s7) = trace s7 @ tr"
      "\<forall>st q. Trigger (IceConnectionStateEvent st q) \<notin> set tr"
    using restart_trace[of p True True None s7] by blast
  show ?thesis
    using tr by (intro exI[of _ tr]) (simp add: run tr7)
qed

lemma ice_failed_publishes:
  assumes peer: "pc_peer (heap s h) = p"
  shows "publishedSince (length (trace s)) (IceConnectionStateEvent ICE_TRICKLE_FAILED p)
           (iceConnectionStateCallback h ICE_FAILED s)
         = (enableIceTrickle s \<and> peerIceTrickleDisabled s p \<noteq> Some True \<and> failures s p \<le> 2)"
proof -
  from ice_failed_trace[OF peer] obtain tr where
    "trace (iceConnectionStateCallback h ICE_FAILED s) = trace s
         @ [Log LDebug p ''Ice connection state changed ->'',
            Trigger (IceConnectionStateEvent ICE_FAILED p)]
         @ (if enableIceTrickle s \<and> peerIceTrickleDisabled s p \<noteq> Some True
                \<and> \<not> failures s p > 2
            then [Trigger (IceConnectionStateEvent ICE_TRICKLE_FAILED p)] else [])
         @ tr"
    "\<forall>st q. Trigger (IceConnectionStateEvent st q) \<notin> set tr"
    by blast
  then show ?thesis
    by (auto simp add: publishedSince_def)
qed

lemma ice_run_frame:
  "pc_peer (heap (fold (iceConnectionStateCallback h) sts s) k) = pc_peer (heap s k)
   \<and> enableIceTrickle (fold (iceConnectionStateCallback h) sts s) = enableIceTrickle s"
  by (induction sts arbitrary: s) (simp_all add: ice_counters)

text \<open>
  C5 (as amended). On a transition to FAILED the handler of the transport of \<open>p\<close> logs and
  publishes the state, brings the failure count of \<open>p\<close> to its old value plus one, and
  then calls \<^verbatim>\<open>_restartPeerConnection(p, true, true)\<close> in every case; the restart
  publishes no further iceConnectionState event. Before the increment the handler sets the
  flag of \<open>p\<close> when the count is already above 2 (lines 334-336), and line 341 reads the
  flag after that: TRICKLE_FAILED is published exactly when trickle ICE is enabled, the
  flag of \<open>p\<close> was not set when the transition arrived and the count was at most 2.
\<close>

theorem ice_failed_transition:
  "pc_peer (heap s h) = p \<Longrightarrow>
   (\<exists>s7 tr. iceConnectionStateCallback h ICE_FAILED s = restartPeerConnection p True True None s7
     \<and> ICEConnectionFailures s7 p = Some (failures s p + 1)
     \<and> peerIceTrickleDisabled s7 p
         = (if failures s p > 2 then Some True else peerIceTrickleDisabled s p)
     \<and> trace s7 = trace s
         @ [Log LDebug p ''Ice connection state changed ->'',
            Trigger (IceConnectionStateEvent ICE_FAILED p)]
         @ (if enableIceTrickle s \<and> peerIceTrickleDisabled s p \<noteq> Some True
                \<and> \<not> failures s p > 2
            then [Trigger (IceConnectionStateEvent ICE_TRICKLE_FAILED p)] else [])
     \<and> conn s7 = conn s \<and> heap s7 = heap s \<and> waits s7 = waits s
     \<and> trace (iceConnectionStateCallback h ICE_FAILED s) = trace s7 @ tr
     \<and> (\<forall>st q. Trigger (IceConnectionStateEvent st q) \<notin> set tr))
   \<and> publishedSince (length (trace s)) (IceConnectionStateEvent ICE_TRICKLE_FAILED p)
        (iceConnectionStateCallback h ICE_FAILED s)
      = (enableIceTrickle s \<and> peerIceTrickleDisabled s p \<noteq> Some True \<and> failures s p \<le> 2)"
proof -
  assume peer: "pc_peer (heap s h) = p"
  from ice_failed_run[OF peer] obtain s7 where
    s7: "iceConnectionStateCallback h ICE_FAILED s = restartPeerConnection p True True None s7"
      "ICEConnectionFailures s7 p = Some (failures s p + 1)"
      "peerIceTrickleDisabled s7 p
         = (if failures s p > 2 then Some True else peerIceTrickleDisabled s p)"
      "trace s7 = trace s
         @ [Log LDebug p ''Ice connection state changed ->'',
            Trigger (IceConnectionStateEvent ICE_FAILED p)]
         @ (if enableIceTrickle s \<and> peerIceTrickleDisabled s p \<noteq> Some True
                \<and> \<not> failures s p > 2
            then [Trigger (IceConnectionStateEvent ICE_TRICKLE_FAILED p)] else [])"
      "conn s7 = conn s" "heap s7 = heap s" "waits s7 = waits s"
    by blast
  obtain tr where tr: "trace (restartPeerConnection p True True None s7) = trace s7 @ tr"
      "\<forall>st q. Trigger (IceConnectionStateEvent st q) \<notin> set tr"
    using restart_trace[of p True True None s7] by blast
  have first: "\<exists>s7 tr. iceConnectionStateCallback h ICE_FAILED s
                          = restartPeerConnection p True True None s7
     \<and> ICEConnectionFailures s7 p = Some (failures s p + 1)
     \<and> peerIceTrickleDisabled s7 p
         = (if failures s p > 2 then Some True else peerIceTrickleDisabled s p)
     \<and> trace s7 = trace s
         @ [Log LDebug p ''Ice connection state changed ->'',
            Trigger (IceConnectionStateEvent ICE_FAILED p)]
         @ (if enableIceTrickle s \<and> peerIceTrickleDisabled s p \<noteq> Some True
                \<and> \<not> failures s p > 2
            then [Trigger (IceConnectionStateEvent ICE_TRICKLE_FAILED p)] else [])
     \<and> conn s7 = conn s \<and> heap s7 = heap s \<and> waits s7 = waits s
     \<and> trace (iceConnectionStateCallback h ICE_FAILED s) = trace s7 @ tr
     \<and> (\<forall>st q. Trigger (IceConnectionStateEvent st q) \<notin> set tr)"
    using s7 tr by (intro exI[of _ s7] exI[of _ tr]) simp
  show ?thesis
    using first ice_failed_publishes[OF peer] by blast
qed

theorem ice_failed_transition_witness:
  "pc_peer (heap joined 0) = ''alice''
   \<and> publishedSince (length (trace joined)) (IceConnectionStateEvent ICE_TRICKLE_FAILED ''alice'')
        (iceConnectionStateCallback 0 ICE_FAILED joined)
   \<and> (\<exists>s7. iceConnectionStateCallback 0 ICE_FAILED joined
              = restartPeerConnection ''alice'' True True None s7
          \<and> ICEConnectionFailures s7 ''alice'' = Some 1
          \<and> trace s7 = trace joined
              @ [Log LDebug ''alice'' ''Ice connection state changed ->'',
                 Trigger (IceConnectionStateEvent ICE_FAILED ''alice''),
                 Trigger (IceConnectionStateEvent ICE_TRICKLE_FAILED ''alice'')])"
proof -
  have peer: "pc_peer (heap joined 0) = ''alice''"
    by (simp add: joined_facts newPeerConnection_def)
  note T = ice_failed_transition[OF peer]
  from T obtain s7 where
    "iceConnectionStateCallback 0 ICE_FAILED joined
       = restartPeerConnection ''alice'' True True None s7"
    "ICEConnectionFailures s7 ''alice'' = Some (failures joined ''alice'' + 1)"
    "trace s7 = trace joined
         @ [Log LDebug ''alice'' ''Ice connection state changed ->'',
            Trigger (IceConnectionStateEvent ICE_FAILED ''alice'')]
         @ (if enableIceTrickle joined \<and> peerIceTrickleDisabled joined ''alice'' \<noteq> Some True
                \<and> \<not> failures joined ''alice'' > 2
            then [Trigger (IceConnectionStateEvent ICE_TRICKLE_FAILED ''alice'')] else [])"
    by blast
  moreover have "publishedSince (length (trace joined))
        (IceConnectionStateEvent ICE_TRICKLE_FAILED ''alice'')
        (iceConnectionStateCallback 0 ICE_FAILED joined)"
    using T by (simp add: joined_facts failures_def)
  ultimately show ?thesis
    using peer by (intro conjI exI[of _ s7]) (simp_all add: joined_facts failures_def)
qed

text \<open>
  C5 as stated fails: after three failures of \<open>alice\<close> trickle ICE is enabled and her flag
  is not set, yet the fourth transition to FAILED publishes no TRICKLE_FAILED event.
\<close>

theorem fourth_failure_publishes_no_trickle_failed:
  "enableIceTrickle failedThrice
   \<and> peerIceTrickleDisabled failedThrice ''alice'' \<noteq> Some True
   \<and> \<not> publishedSince (length (trace failedThrice))
          (IceConnectionStateEvent ICE_TRICKLE_FAILED ''alice'')
          (iceConnectionStateCallback 0 ICE_FAILED failedThrice)"
proof -
  have peer0: "pc_peer (heap joined 0) = ''alice''"
    by (simp add: joined_facts newPeerConnection_def)
  have frame: "pc_peer (heap failedThrice 0) = pc_peer (heap joined 0)
               \<and> enableIceTrickle failedThrice = enableIceTrickle joined"
    unfolding failedThrice_def by (rule ice_run_frame)
  have peer: "pc_peer (heap failedThrice 0) = ''alice''"
    and en: "enableIceTrickle failedThrice"
    using frame by (simp_all add: joined_facts newPeerConnection_def)
  have cnt: "failures failedThrice ''alice'' = 3"
    and flag: "peerIceTrickleDisabled failedThrice ''alice'' = None"
    unfolding failedThrice_def
    using failed_run[OF peer0, of 3] by (simp_all add: joined_facts failures_def)
  show ?thesis
    using en by (simp add: ice_failed_publishes[OF peer] cnt flag)
qed

section \<open>Stabilisation\<close>

lemma nativeSignalingState_fields:
  "heap (nativeSignalingState h st s) = (heap s)(h := (heap s h)\<lparr>signalingState := st\<rparr>)"
  "peerConnectionHealth (nativeSignalingState h st s) =
     (if (iceConnectionState (heap s h) = ICE_COMPLETED
            \<or> iceConnectionState (heap s h) = ICE_CONNECTED) \<and> st = STABLE
      then (peerConnectionHealth s)(pc_peer (heap s h) \<mapsto> True)
      else peerConnectionHealth s)"
  "healthTimers (nativeSignalingState h st s) =
     (if (iceConnectionState (heap s h) = ICE_COMPLETED
            \<or> iceConnectionState (heap s h) = ICE_CONNECTED) \<and> st = STABLE
      then (healthTimers s)(pc_peer (heap s h) := False)
      else healthTimers s)"
  by (simp_all add: nativeSignalingState_def signaling_fields)

lemma nativeIceConnectionState_fields:
  assumes "st \<noteq> ICE_FAILED"
  shows "heap (nativeIceConnectionState h st s) = (heap s)(h := (heap s h)\<lparr>iceConnectionState := st\<rparr>)"
    and "peerConnectionHealth (nativeIceConnectionState h st s) =
           (if st = ICE_COMPLETED \<and> signalingState (heap s h) = STABLE
            then (peerConnectionHealth s)(pc_peer (heap s h) \<mapsto> True)
            else peerConnectionHealth s)"
    and "healthTimers (nativeIceConnectionState h st s) =
           (if st = ICE_COMPLETED \<and> signalingState (heap s h) = STABLE
            then (healthTimers s)(pc_peer (heap s h) := False)
            else healthTimers s)"
  using assms by (simp_all add: nativeIceConnectionState_def ice_other)

text \<open>
  C4 (as amended). For the transport \<open>h\<close> of a peer \<open>p\<close>:
  when the signaling state becomes STABLE first and the transport then reports COMPLETED,
  or when the transport reports CONNECTED or COMPLETED first and the signaling state then
  becomes STABLE, the second event makes the health flag of \<open>p\<close> true and stops its
  watchdog. The first event alone changes neither while the other condition is missing.
  Once the flag is true and the watchdog stopped, every signaling change and every
  iceConnectionState report other than FAILED leaves both as they are.
  (A report of CONNECTED that arrives after STABLE is not among these: the
  iceConnectionState handler tests for COMPLETED only.)
\<close>

theorem stabilisation:
  "pc_peer (heap s h) = p \<Longrightarrow>
   peerConnectionHealth
     (nativeIceConnectionState h ICE_COMPLETED (nativeSignalingState h STABLE s)) p = Some True
   \<and> \<not> healthTimers
        (nativeIceConnectionState h ICE_COMPLETED (nativeSignalingState h STABLE s)) p
   \<and> ((ist = ICE_CONNECTED \<or> ist = ICE_COMPLETED) \<longrightarrow>
        peerConnectionHealth
          (nativeSignalingState h STABLE (nativeIceConnectionState h ist s)) p = Some True
        \<and> \<not> healthTimers
             (nativeSignalingState h STABLE (nativeIceConnectionState h ist s)) p)
   \<and> (iceConnectionState (heap s h) \<noteq> ICE_COMPLETED
        \<and> iceConnectionState (heap s h) \<noteq> ICE_CONNECTED \<longrightarrow>
        peerConnectionHealth (nativeSignalingState h STABLE s) = peerConnectionHealth s
        \<and> healthTimers (nativeSignalingState h STABLE s) = healthTimers s)
   \<and> (signalingState (heap s h) \<noteq> STABLE \<and> ist \<noteq> ICE_FAILED \<longrightarrow>
        peerConnectionHealth (nativeIceConnectionState h ist s) = peerConnectionHealth s
        \<and> healthTimers (nativeIceConnectionState h ist s) = healthTimers s)
   \<and> (peerConnectionHealth s p = Some True \<and> \<not> healthTimers s p \<longrightarrow>
        peerConnectionHealth (nativeSignalingState h sst s) = peerConnectionHealth s
        \<and> healthTimers (nativeSignalingState h sst s) = healthTimers s
        \<and> (ist \<noteq> ICE_FAILED \<longrightarrow>
             peerConnectionHealth (nativeIceConnectionState h ist s) = peerConnectionHealth s
             \<and> healthTimers (nativeIceConnectionState h ist s) = healthTimers s))"
proof -
  assume peer: "pc_peer (heap s h) = p"
  have A: "peerConnectionHealth
     (nativeIceConnectionState h ICE_COMPLETED (nativeSignalingState h STABLE s)) p = Some True
   \<and> \<not> healthTimers
        (nativeIceConnectionState h ICE_COMPLETED (nativeSignalingState h STABLE s)) p"
    using peer by (simp add: nativeIceConnectionState_fields nativeSignalingState_fields)
  have B: "(ist = ICE_CONNECTED \<or> ist = ICE_COMPLETED) \<longrightarrow>
        peerConnectionHealth
          (nativeSignalingState h STABLE (nativeIceConnectionState h ist s)) p = Some True
        \<and> \<not> healthTimers
             (nativeSignalingState h STABLE (nativeIceConnectionState h ist s)) p"
    using peer by (auto simp add: nativeIceConnectionState_fields nativeSignalingState_fields)
  have C: "iceConnectionState (heap s h) \<noteq> ICE_COMPLETED
        \<and> iceConnectionState (heap s h) \<noteq> ICE_CONNECTED \<longrightarrow>
        peerConnectionHealth (nativeSignalingState h STABLE s) = peerConnectionHealth s
        \<and> healthTimers (nativeSignalingState h STABLE s) = healthTimers s"
    by (simp add: nativeSignalingState_fields)
  have D: "signalingState (heap s h) \<noteq> STABLE \<and> ist \<noteq> ICE_FAILED \<longrightarrow>
        peerConnectionHealth (nativeIceConnectionState h ist s) = peerConnectionHealth s
        \<and> healthTimers (nativeIceConnectionState h ist s) = healthTimers s"
    by (simp add: nativeIceConnectionState_fields)
  have E: "peerConnectionHealth s p = Some True \<and> \<not> healthTimers s p \<longrightarrow>
        peerConnectionHealth (nativeSignalingState h sst s) = peerConnectionHealth s
        \<and> healthTimers (nativeSignalingState h sst s) = healthTimers s
        \<and> (ist \<noteq> ICE_FAILED \<longrightarrow>
             peerConnectionHealth (nativeIceConnectionState h ist s) = peerConnectionHealth s
             \<and> healthTimers (nativeIceConnectionState h ist s) = healthTimers s)"
    using peer
    by (auto simp add: nativeIceConnectionState_fields nativeSignalingState_fields
          map_upd_triv fun_upd_idem)
  from A B C D E show ?thesis by blast
qed

theorem stabilisation_witness:
  "pc_peer (heap joined 0) = ''alice''
   \<and> peerConnectionHealth
       (nativeIceConnectionState 0 ICE_COMPLETED (nativeSignalingState 0 STABLE joined)) ''alice''
       = Some True
   \<and> \<not> healthTimers
        (nativeIceConnectionState 0 ICE_COMPLETED (nativeSignalingState 0 STABLE joined)) ''alice''
   \<and> peerConnectionHealth
       (nativeSignalingState 0 STABLE (nativeIceConnectionState 0 ICE_CONNECTED joined)) ''alice''
       = Some True
   \<and> peerConnectionHealth (nativeSignalingState 0 STABLE joined) = peerConnectionHealth joined
   \<and> peerConnectionHealth
       (nativeIceConnectionState 0 ICE_CHECKING
         (joined\<lparr>heap := (heap joined)(0 := (heap joined 0)\<lparr>signalingState := HAVE_LOCAL_OFFER\<rparr>)\<rparr>))
       = peerConnectionHealth joined"
  using stabilisation [of joined 0 "''alice''" ICE_CONNECTED STABLE]
    stabilisation [of "joined\<lparr>heap := (heap joined)(0 := (heap joined 0)\<lparr>signalingState := HAVE_LOCAL_OFFER\<rparr>)\<rparr>"
                      0 "''alice''" ICE_CHECKING STABLE]
  by (simp add: joined_facts newPeerConnection_def)

text \<open>
  C4 as stated fails: in \<open>settledThenConnected\<close> the signaling state of the transport of
  \<open>alice\<close> is STABLE and its iceConnectionState has reached CONNECTED, yet the health flag
  is not set and the watchdog is still running.
\<close>

theorem connected_after_stable_is_not_healthy:
  "signalingState (heap settledThenConnected 0) = STABLE
   \<and> iceConnectionState (heap settledThenConnected 0) = ICE_CONNECTED
   \<and> peerConnectionHealth settledThenConnected ''alice'' \<noteq> Some True
   \<and> healthTimers settledThenConnected ''alice''"
  unfolding settledThenConnected_def
  by (simp add: nativeIceConnectionState_fields nativeSignalingState_fields joined_facts
        newPeerConnection_def)

section \<open>The throttle of \<^verbatim>\<open>refreshConnection\<close>\<close>

lemma refreshConnection_stamp:
  "throttleStamp (refreshConnection a s) =
     (if refreshExecutes s then Some (clock s) else throttleStamp s)"
  by (simp add: refreshConnection_def throttle_def refreshExecutes_def)

lemma refreshConnection_dropped:
  "\<not> refreshExecutes s \<Longrightarrow>
   refreshConnection a s =
     (if hasMCU s
      then emit (Log LWarn (case a of Some p \<Rightarrow> p | None \<Rightarrow> [])
                  ''Restart functionality for peer's connection for MCU is not yet supported'') s
      else s)"
  by (auto simp add: refreshConnection_def throttle_def refreshExecutes_def)

lemma refreshRuns_closed:
  assumes "throttleStamp s = Some u" and "\<forall>(t, a) \<in> set calls. t - u < 5000"
  shows "refreshRuns calls s = 0"
  using assms
proof (induction calls arbitrary: s)
  case Nil
  then show ?case by simp
next
  case (Cons c calls)
  obtain t a where c: "c = (t, a)" by (cases c)
  have closed: "\<not> refreshExecutes (s\<lparr>clock := t\<rparr>)"
    using Cons.prems by (simp add: c refreshExecutes_def throttleOpen_def)
  have stamp: "throttleStamp (refreshConnection a (s\<lparr>clock := t\<rparr>)) = Some u"
    using closed Cons.prems(1) by (simp add: refreshConnection_stamp)
  have "refreshRuns calls (refreshConnection a (s\<lparr>clock := t\<rparr>)) = 0"
    using Cons.IH[OF stamp] Cons.prems(2) by simp
  then show ?case using closed by (simp add: c)
qed

lemma refreshRuns_window:
  "\<forall>(t, a) \<in> set calls. lo \<le> t \<and> t < lo + 5000 \<Longrightarrow> refreshRuns calls s \<le> 1"
proof (induction calls arbitrary: s)
  case Nil
  then show ?case by simp
next
  case (Cons c calls)
  obtain t a where c: "c = (t, a)" by (cases c)
  let ?s = "s\<lparr>clock := t\<rparr>"
  show ?case
  proof (cases "refreshExecutes ?s")
    case True
    have stamp: "throttleStamp (refreshConnection a ?s) = Some t"
      using True by (simp add: refreshConnection_stamp)
    have window: "\<forall>(t', a') \<in> set calls. t' - t < 5000"
      using Cons.prems by (auto simp add: c)
    have "refreshRuns calls (refreshConnection a ?s) = 0"
      by (rule refreshRuns_closed[OF stamp window])
    then show ?thesis using True by (simp add: c)
  next
    case False
    have "refreshRuns calls (refreshConnection a ?s) \<le> 1"
      using Cons.IH Cons.prems by simp
    then show ?thesis using False by (simp add: c)
  qed
qed

text \<open>
  C9. \<^verbatim>\<open>refreshConnection\<close> runs \<^verbatim>\<open>toRefresh\<close> behind \<^verbatim>\<open>_throttle(..., 5000)\<close>. In
  any run of calls whose times all lie in one window of less than 5000 ms, whatever their
  number and arguments, \<^verbatim>\<open>toRefresh\<close> is executed at most once. A call either executes
  \<^verbatim>\<open>toRefresh\<close> and stamps the time, or is dropped and leaves the state as it is (apart
  from the warning when a relay is present): nothing is queued.
\<close>

theorem refresh_throttle:
  "\<forall>(t, a) \<in> set calls. lo \<le> t \<and> t < lo + 5000 \<Longrightarrow>
   refreshRuns calls s \<le> 1
   \<and> refreshConnection b r =
       (if refreshExecutes r then (toRefresh b r)\<lparr>throttleStamp := Some (clock r)\<rparr>
        else if hasMCU r
        then r\<lparr>trace := trace r @
               [Log LWarn (case b of Some p \<Rightarrow> p | None \<Rightarrow> [])
                 ''Restart functionality for peer's connection for MCU is not yet supported'']\<rparr>
        else r)"
  using refreshRuns_window[of calls lo s]
  by (auto simp add: refreshConnection_def throttle_def refreshExecutes_def emit_def)

theorem refresh_throttle_witness:
  "refreshRuns [(50000, Some ''alice''), (50100, None), (50200, Some ''alice''),
                  (50300, Some ''alice''), (50400, None), (50500, Some ''alice''),
                  (50600, Some ''alice''), (50700, None), (50800, Some ''alice''),
                  (50900, Some ''alice'')] joined \<le> 1
   \<and> refreshExecutes (joined\<lparr>clock := 50000\<rparr>)"
  using refresh_throttle
    [of "[(50000, Some ''alice''), (50100, None), (50200, Some ''alice''),
          (50300, Some ''alice''), (50400, None), (50500, Some ''alice''),
          (50600, Some ''alice''), (50700, None), (50800, Some ''alice''),
          (50900, Some ''alice'')]" 50000 joined None joined]
  by (simp add: refreshExecutes_def throttleOpen_def joined_facts)


end
